theory Spec2Isabelle
  imports Main "HOL-Library.Sublist"
begin

section \<open>Python text helpers\<close>

text \<open>
  The module builds C source text with Python's string operators. Failures of the
  generator itself are values of \<open>error\<close>: a failed \<open>assert\<close> (tagged with the
  assertion that failed), and the exceptions that the \<open>%\<close> operator raises on a
  template it cannot fill.
\<close>

datatype assertion = BodyNeedsCreation | KwDefaultsNotEmptyConstant

datatype error = AssertionError assertion | KeyError string | TypeError | ValueError

text \<open>Decimal rendering of a count, as \<open>%d\<close> prints a non-negative integer.\<close>

definition digit_char :: "nat \<Rightarrow> char" where
  "digit_char n = ''0123456789'' ! (n mod 10)"

fun string_of_nat :: "nat \<Rightarrow> string" where
  "string_of_nat n =
     (if n < 10 then [digit_char n] else string_of_nat (n div 10) @ [digit_char n])"

text \<open>Python's \<open>sep.join(items)\<close>.\<close>

fun join :: "string \<Rightarrow> string list \<Rightarrow> string" where
  "join sep [] = []"
| "join sep [x] = x"
| "join sep (x # y # ys) = x @ sep @ join sep (y # ys)"

text \<open>Python's \<open>text.split('\n')\<close>: the empty text splits into one empty line.\<close>

fun split_lines :: "string \<Rightarrow> string list" where
  "split_lines [] = [[]]"
| "split_lines (c # cs) =
     (if c = CHR 0x0A then [] # split_lines cs
      else (case split_lines cs of [] \<Rightarrow> [[c]] | l # ls \<Rightarrow> (c # l) # ls))"

definition endswith :: "string \<Rightarrow> char \<Rightarrow> bool" where
  "endswith s c = (case rev s of [] \<Rightarrow> False | d # _ \<Rightarrow> d = c)"

text \<open>
  The values a template is filled with are texts and counts. \<open>py_format\<close> is the
  \<open>template % mapping\<close> operator for the directives the templates of a code generator
  use: \<open>%%\<close>, \<open>%(key)s\<close> and \<open>%(key)d\<close>. A key that the mapping lacks raises
  KeyError, \<open>%(key)d\<close> on a text raises TypeError, and any other directive is reported
  as ValueError.
\<close>

datatype pyval = PyStr string | PyInt nat

fun str_of :: "pyval \<Rightarrow> string" where
  "str_of (PyStr s) = s"
| "str_of (PyInt n) = string_of_nat n"

definition prepend :: "string \<Rightarrow> error + string \<Rightarrow> error + string" where
  "prepend s r = (case r of Inl e \<Rightarrow> Inl e | Inr t \<Rightarrow> Inr (s @ t))"

function py_format :: "string \<Rightarrow> (string \<times> pyval) list \<Rightarrow> error + string" where
  "py_format [] vals = Inr []"
| "py_format (c # cs) vals =
     (if c \<noteq> CHR ''%'' then prepend [c] (py_format cs vals)
      else (case cs of
              [] \<Rightarrow> Inl ValueError
            | d # ds \<Rightarrow>
                if d = CHR ''%'' then prepend ''%'' (py_format ds vals)
                else if d \<noteq> CHR ''('' then Inl ValueError
                else (case dropWhile (\<lambda>x. x \<noteq> CHR '')'') ds of
                        [] \<Rightarrow> Inl ValueError
                      | _ # conv \<Rightarrow>
                          (case map_of vals (takeWhile (\<lambda>x. x \<noteq> CHR '')'') ds) of
                             None \<Rightarrow> Inl (KeyError (takeWhile (\<lambda>x. x \<noteq> CHR '')'') ds))
                           | Some v \<Rightarrow>
                               (case conv of
                                  [] \<Rightarrow> Inl ValueError
                                | t # rest \<Rightarrow>
                                    if t = CHR ''s'' then prepend (str_of v) (py_format rest vals)
                                    else if t = CHR ''d'' then
                                      (case v of
                                         PyInt n \<Rightarrow> prepend (string_of_nat n) (py_format rest vals)
                                       | PyStr _ \<Rightarrow> Inl TypeError)
                                    else Inl ValueError)))))"
  by pat_completeness auto
termination
proof (relation "measure (\<lambda>(t, vals). length t)")
  fix c :: char and cs vals x21 x22 x21a x22a x2 x21b x22b
  assume r: "dropWhile (\<lambda>x. x \<noteq> CHR '')'') x22 = x21a # x22a" and c: "x22a = x21b # x22b"
    and d: "cs = x21 # x22"
  have "length (dropWhile (\<lambda>x. x \<noteq> CHR '')'') x22) \<le> length x22"
    by (rule length_dropWhile_le)
  with r c d show "((x22b, vals), (c # cs, vals)) \<in> measure (\<lambda>(t, vals). length t)"
    by simp
  fix x2a
  from \<open>length (dropWhile (\<lambda>x. x \<noteq> CHR '')'') x22) \<le> length x22\<close> r c d
  show "((x22b, vals), (c # cs, vals)) \<in> measure (\<lambda>(t, vals). length t)"
    by simp
qed auto

section \<open>Data handed in by the front end\<close>

text \<open>
  A variable of the node tree, seen through the queries this module makes of it:
  \<open>getName()\<close>, \<open>getCodeName()\<close>, \<open>isSharedTechnically()\<close> and
  \<open>isParameterVariable()\<close>.
\<close>

record variable =
  getName :: string
  getCodeName :: string
  isSharedTechnically :: bool
  isParameterVariable :: bool

text \<open>
  Compile-time constants, as far as this module inspects them: the documentation text
  (or \<open>None\<close>), names, and mappings, of which the empty one is singled out.
\<close>

datatype pyconstant = ConstNone | ConstStr string | ConstDict "(pyconstant \<times> pyconstant) list"

text \<open>
  An expression node answers \<open>isExpressionConstantRef()\<close> and, when it is a constant
  reference, \<open>getConstant()\<close>. Every other node is opaque here.
\<close>

datatype expression = ExpressionConstantRef pyconstant | ExpressionComputed nat

record parameters =
  getCoArgNames :: "string list"
  getStarListArgumentName :: "string option"
  getStarDictArgumentName :: "string option"

text \<open>
  The body of a function, generator or generator object, again through the queries made
  of it. \<open>getRunTimeFilename\<close> stands for
  \<open>getParentModule().getRunTimeFilename()\<close>, \<open>getLineNumber\<close> for
  \<open>getSourceReference().getLineNumber()\<close> and \<open>getFutureFlags\<close> for
  \<open>getSourceReference().getFutureSpec().asFlags()\<close>.
\<close>

record function_body =
  needsCreation :: bool
  getCodeName :: string
  getFunctionName :: string
  getFunctionQualname :: string
  getDoc :: pyconstant
  getParameters :: parameters
  getClosureVariables :: "variable list"
  getLocalVariables :: "variable list"
  isGenerator :: bool
  needsLocalsDict :: bool
  getRunTimeFilename :: string
  getLineNumber :: nat
  getFutureFlags :: "string list"

record code_object =
  getVarNames :: "string list"
  getArgumentCount :: nat
  getKwOnlyParameterCount :: nat
  getCodeObjectName :: string

text \<open>The keyword arguments of \<open>context.getCodeObjectHandle\<close>.\<close>

record code_object_handle =
  handle_filename :: string
  handle_var_names :: "string list"
  handle_arg_count :: nat
  handle_kw_only_count :: nat
  handle_line_number :: nat
  handle_code_name :: string
  handle_is_generator :: bool
  handle_is_optimized :: bool
  handle_new_locals :: bool
  handle_has_starlist :: bool
  handle_has_stardict :: bool
  handle_has_closure :: bool
  handle_future_flags :: "string list"

section \<open>The compilation context\<close>

text \<open>
  The context class is defined in \<open>Contexts.py\<close>. Its ledger is kept here as data: the
  helper codes and declarations registered per callable identity (in order of
  registration), and the names of the temporaries that still await cleanup. The other
  fields are the answers of the context to the queries of this module.
\<close>

record gen_context =
  helper_codes :: "(string \<times> string) list"
  declaration_codes :: "(string \<times> string) list"
  cleanup_names :: "string list"
  hasTempName :: "string \<Rightarrow> bool"
  getTempNameInfos :: "(string \<times> string) list"
  hasLocalsDict :: bool
  needsExceptionVariables :: bool
  getKeeperVariableCount :: nat
  getExceptionPreserverCounts :: "nat list"
  getFrameDeclarations :: "string list"
  isForDirectCall :: bool
  isForCreatedFunction :: bool

text \<open>
  Modelled from the spec: \<open>context.hasHelperCode\<close>, \<open>context.addHelperCode\<close> and
  \<open>context.addDeclaration\<close> of Contexts.py, the per-identity memo of emitted
  constructor code (a set of identities that only grows, each with its text).
\<close>

definition hasHelperCode :: "string \<Rightarrow> gen_context \<Rightarrow> bool" where
  "hasHelperCode key context = (key \<in> set (map fst (helper_codes context)))"

definition addHelperCode :: "string \<Rightarrow> string \<Rightarrow> gen_context \<Rightarrow> gen_context" where
  "addHelperCode key code context =
     context\<lparr>helper_codes := helper_codes context @ [(key, code)]\<rparr>"

definition addDeclaration :: "string \<Rightarrow> string \<Rightarrow> gen_context \<Rightarrow> gen_context" where
  "addDeclaration key code context =
     context\<lparr>declaration_codes := declaration_codes context @ [(key, code)]\<rparr>"

text \<open>
  Modelled from the spec: \<open>context.needsCleanup\<close>, \<open>context.removeCleanupTempName\<close>
  and \<open>context.addCleanupTempName\<close> of Contexts.py, the cleanup ledger: a name is an
  obligation from the moment it is added until it is removed. The callers test an
  absent name (\<open>None\<close>) as well; it is never an obligation.
\<close>

definition needsCleanup :: "string \<Rightarrow> gen_context \<Rightarrow> bool" where
  "needsCleanup tmp_name context = (tmp_name \<in> set (cleanup_names context))"

definition removeCleanupTempName :: "string \<Rightarrow> gen_context \<Rightarrow> gen_context" where
  "removeCleanupTempName tmp_name context =
     context\<lparr>cleanup_names := removeAll tmp_name (cleanup_names context)\<rparr>"

definition addCleanupTempName :: "string \<Rightarrow> gen_context \<Rightarrow> gen_context" where
  "addCleanupTempName tmp_name context =
     context\<lparr>cleanup_names := cleanup_names context @ [tmp_name]\<rparr>"

text \<open>
  Modelled from the spec: \<open>getReleaseCode\<close> of ErrorCodes.py, the explicit release of
  a temporary by its holder: when the name is a cleanup obligation, the release
  instruction is emitted and the obligation is struck from the ledger; otherwise
  nothing happens.
\<close>

definition getReleaseCode :: "string option \<Rightarrow> gen_context \<Rightarrow> string list \<times> gen_context" where
  "getReleaseCode release_name context =
     (case release_name of
        None \<Rightarrow> ([], context)
      | Some n \<Rightarrow>
          if needsCleanup n context
          then ([''Py_DECREF( '' @ n @ '' );''], removeCleanupTempName n context)
          else ([], context))"

section \<open>Collaborators and templates\<close>

text \<open>
  The functions this module imports from its sibling modules (VariableCodes,
  ConstantCodes, ParameterParsing, ErrorCodes, Indentation, CodeGeneration, ...) and the
  methods of the context whose effect lies outside the ledger are parameters of the
  development. A collaborator that receives \<open>emit\<close> returns the lines it emits; one
  that may change the context returns the new context.
\<close>

record collaborators =
  python_version :: nat
  getVariableCodeName :: "bool \<Rightarrow> variable \<Rightarrow> string"
  getVariableCode :: "gen_context \<Rightarrow> variable \<Rightarrow> string"
  getConstantCode :: "pyconstant \<Rightarrow> gen_context \<Rightarrow> string"
  getCodeObjectHandle :: "gen_context \<Rightarrow> code_object_handle \<Rightarrow> string"
  getModuleAccessCode :: "gen_context \<Rightarrow> string"
  getReferenceExportCode :: "string \<Rightarrow> gen_context \<Rightarrow> string"
  getParameterEntryPointIdentifier :: "string \<Rightarrow> string"
  getQuickEntryPointIdentifier :: "string \<Rightarrow> parameters \<Rightarrow> string"
  getDirectFunctionEntryPointIdentifier :: "string \<Rightarrow> string"
  getParameterParsingCode ::
    "string \<Rightarrow> string \<Rightarrow> parameters \<Rightarrow> bool \<Rightarrow> gen_context \<Rightarrow> variable list \<times> string \<times> string list"
  getLocalVariableInitCode :: "variable \<Rightarrow> string option \<Rightarrow> string"
  getErrorVariableDeclarations :: "string list"
  getExceptionKeeperVariableNames :: "nat \<Rightarrow> string list"
  getExceptionPreserverVariableNames :: "nat \<Rightarrow> string list"
  getMustNotGetHereCode :: "string \<Rightarrow> gen_context \<Rightarrow> string list"
  getErrorExitCode :: "string \<Rightarrow> bool \<Rightarrow> gen_context \<Rightarrow> string list \<times> gen_context"
  context_getConstantCode :: "gen_context \<Rightarrow> pyconstant \<Rightarrow> string"
  indented :: "string list \<Rightarrow> string"
  indented_text :: "string \<Rightarrow> string"
  allocateTempName :: "string \<Rightarrow> gen_context \<Rightarrow> string \<times> gen_context"
  generateExpressionCode :: "string \<Rightarrow> expression \<Rightarrow> gen_context \<Rightarrow> string list \<times> gen_context"
  generateTupleCreationCode ::
    "string \<Rightarrow> expression list \<Rightarrow> gen_context \<Rightarrow> string list \<times> gen_context"

text \<open>The texts of \<open>templates/CodeTemplates*.py\<close> that this module fills.\<close>

record templates =
  template_function_make_declaration :: string
  template_make_function_with_context_template :: string
  template_make_function_without_context_template :: string
  template_make_genfunc_with_context_template :: string
  template_make_genfunc_without_context_template :: string
  function_dict_setup :: string
  function_direct_body_template :: string
  template_function_body :: string
  template_function_exception_exit :: string
  template_function_return_exit :: string
  template_generator_exception_exit :: string
  template_generator_noexception_exit :: string
  template_generator_return_exit :: string
  template_genfunc_yielder_body_template :: string
  template_genfunc_generator_with_parameters :: string
  template_genfunc_generator_no_parameters :: string
  template_genfunc_generator_with_own_closure :: string
  template_genfunc_generator_with_parent_closure :: string
  template_genfunc_generator_no_closure :: string
  template_genfunc_function_impl_template :: string
  template_generator_making_with_context :: string
  template_generator_making_without_context :: string

section \<open>Closure capture\<close>

definition getClosureVariableProvisionCode ::
  "collaborators \<Rightarrow> gen_context \<Rightarrow> variable list \<Rightarrow> string list" where
  "getClosureVariableProvisionCode X context closure_variables =
     foldl (\<lambda>result variable. result @ [getVariableCode X context variable])
       [] closure_variables"

section \<open>Constructor declaration and body\<close>

text \<open>
  \<open>_getFunctionCreationArgs\<close>: the result list starts empty, receives one entry per
  name that is not \<open>None\<close> and then one entry per closure variable, in this order.
\<close>

definition getFunctionCreationArgs ::
  "collaborators \<Rightarrow> string option \<Rightarrow> string option \<Rightarrow> string option \<Rightarrow> variable list \<Rightarrow>
   string list" where
  "getFunctionCreationArgs X defaults_name kw_defaults_name annotations_name closure_variables =
     (let result = [];
          result = (if defaults_name \<noteq> None then result @ [''PyObject *defaults''] else result);
          result = (if kw_defaults_name \<noteq> None then result @ [''PyObject *kw_defaults'']
                    else result);
          result = (if annotations_name \<noteq> None then result @ [''PyObject *annotations'']
                    else result)
      in foldl (\<lambda>result closure_variable.
                  result @ [''PyCellObject *'' @ getVariableCodeName X True closure_variable])
           result closure_variables)"

definition getFunctionMakerDecl ::
  "collaborators \<Rightarrow> templates \<Rightarrow> string \<Rightarrow> string option \<Rightarrow> string option \<Rightarrow> string option \<Rightarrow>
   variable list \<Rightarrow> error + string" where
  "getFunctionMakerDecl X T function_identifier defaults_name kw_defaults_name annotations_name
      closure_variables =
     (let function_creation_arg_spec =
            getFunctionCreationArgs X defaults_name kw_defaults_name annotations_name
              closure_variables
      in py_format (template_function_make_declaration T)
           [(''function_identifier'', PyStr function_identifier),
            (''function_creation_arg_spec'', PyStr (join '', '' function_creation_arg_spec))])"

text \<open>
  Python's truth test of a name that may be \<open>None\<close> (\<open>"defaults" if defaults_name else
  "NULL"\<close>): \<open>None\<close> and the empty text count as false.
\<close>

definition truthy :: "string option \<Rightarrow> bool" where
  "truthy name = (case name of None \<Rightarrow> False | Some s \<Rightarrow> s \<noteq> [])"

text \<open>The \<open>context_copy\<close> lines of the constructor body with captured context.\<close>

definition context_copy :: "collaborators \<Rightarrow> variable list \<Rightarrow> string list" where
  "context_copy X closure_variables =
     (''PyCellObject **closure = (PyCellObject **)malloc( ''
        @ string_of_nat (length closure_variables) @ '' * sizeof(PyCellObject *) );'')
     # concat (map (\<lambda>(count, closure_variable).
                      [''closure['' @ string_of_nat count @ ''] = ''
                         @ getVariableCodeName X True closure_variable @ '';'',
                       ''Py_INCREF( closure['' @ string_of_nat count @ ''] );''])
                 (enumerate 0 closure_variables))"

text \<open>
  The mapping that \<open>getFunctionMakerCode\<close> fills its template with: one literal for
  the constructor with captured context, one for the constructor without.
\<close>

definition getFunctionMakerCode_values ::
  "collaborators \<Rightarrow> string \<Rightarrow> string \<Rightarrow> string \<Rightarrow> string \<Rightarrow> parameters \<Rightarrow> variable list \<Rightarrow>
   string option \<Rightarrow> string option \<Rightarrow> string option \<Rightarrow> pyconstant \<Rightarrow> gen_context \<Rightarrow>
   (string \<times> pyval) list" where
  "getFunctionMakerCode_values X function_name function_qualname function_identifier
      code_identifier parameters closure_variables defaults_name kw_defaults_name
      annotations_name function_doc context =
     (let function_creation_args =
            getFunctionCreationArgs X defaults_name kw_defaults_name annotations_name
              closure_variables;
          function_qualname_obj =
            (if python_version X < 330 \<or> function_qualname = function_name then ''NULL''
             else getConstantCode X (ConstStr function_qualname) context)
      in if closure_variables \<noteq> [] then
           [(''function_name_obj'', PyStr (getConstantCode X (ConstStr function_name) context)),
            (''function_qualname_obj'', PyStr function_qualname_obj),
            (''function_identifier'', PyStr function_identifier),
            (''fparse_function_identifier'',
               PyStr (getParameterEntryPointIdentifier X function_identifier)),
            (''dparse_function_identifier'',
               PyStr (getQuickEntryPointIdentifier X function_identifier parameters)),
            (''function_creation_args'', PyStr (join '', '' function_creation_args)),
            (''code_identifier'', PyStr code_identifier),
            (''context_copy'', PyStr (indented X (context_copy X closure_variables))),
            (''function_doc'', PyStr (getConstantCode X function_doc context)),
            (''defaults'', PyStr (if truthy defaults_name then ''defaults'' else ''NULL'')),
            (''kw_defaults'', PyStr (if truthy kw_defaults_name then ''kw_defaults'' else ''NULL'')),
            (''annotations'',
               PyStr (if truthy annotations_name then ''annotations''
                      else context_getConstantCode X context (ConstDict []))),
            (''closure_count'', PyInt (length closure_variables)),
            (''module_identifier'', PyStr (getModuleAccessCode X context))]
         else
           [(''function_name_obj'', PyStr (getConstantCode X (ConstStr function_name) context)),
            (''function_qualname_obj'', PyStr function_qualname_obj),
            (''function_identifier'', PyStr function_identifier),
            (''fparse_function_identifier'',
               PyStr (getParameterEntryPointIdentifier X function_identifier)),
            (''dparse_function_identifier'',
               PyStr (getQuickEntryPointIdentifier X function_identifier parameters)),
            (''function_creation_args'', PyStr (join '', '' function_creation_args)),
            (''code_identifier'', PyStr code_identifier),
            (''function_doc'', PyStr (getConstantCode X function_doc context)),
            (''defaults'', PyStr (if truthy defaults_name then ''defaults'' else ''NULL'')),
            (''kw_defaults'', PyStr (if truthy kw_defaults_name then ''kw_defaults'' else ''NULL'')),
            (''annotations'',
               PyStr (if truthy annotations_name then ''annotations''
                      else context_getConstantCode X context (ConstDict []))),
            (''module_identifier'', PyStr (getModuleAccessCode X context))])"

text \<open>The template that \<open>getFunctionMakerCode\<close> selects.\<close>

definition getFunctionMakerCode_template :: "templates \<Rightarrow> variable list \<Rightarrow> bool \<Rightarrow> string" where
  "getFunctionMakerCode_template T closure_variables is_generator =
     (if closure_variables \<noteq> [] then
        (if is_generator then template_make_genfunc_with_context_template T
         else template_make_function_with_context_template T)
      else
        (if is_generator then template_make_genfunc_without_context_template T
         else template_make_function_without_context_template T))"

definition getFunctionMakerCode ::
  "collaborators \<Rightarrow> templates \<Rightarrow> string \<Rightarrow> string \<Rightarrow> string \<Rightarrow> string \<Rightarrow> parameters \<Rightarrow>
   variable list \<Rightarrow> string option \<Rightarrow> string option \<Rightarrow> string option \<Rightarrow> pyconstant \<Rightarrow> bool \<Rightarrow>
   gen_context \<Rightarrow> error + string" where
  "getFunctionMakerCode X T function_name function_qualname function_identifier code_identifier
      parameters closure_variables defaults_name kw_defaults_name annotations_name function_doc
      is_generator context =
     py_format (getFunctionMakerCode_template T closure_variables is_generator)
       (getFunctionMakerCode_values X function_name function_qualname function_identifier
          code_identifier parameters closure_variables defaults_name kw_defaults_name
          annotations_name function_doc context)"

section \<open>Creating a function object\<close>

text \<open>
  \<open>getFunctionCreationCode\<close> emits the constructor call, strikes the defaults and the
  keyword defaults from the cleanup ledger when they are obligations, and registers the
  result.
\<close>

definition getFunctionCreationCode ::
  "collaborators \<Rightarrow> string \<Rightarrow> string \<Rightarrow> string option \<Rightarrow> string option \<Rightarrow> string option \<Rightarrow>
   variable list \<Rightarrow> gen_context \<Rightarrow> string list \<times> gen_context" where
  "getFunctionCreationCode X to_name function_identifier defaults_name kw_defaults_name
      annotations_name closure_variables context =
     (let args = [];
          args = (case defaults_name of
                    None \<Rightarrow> args | Some n \<Rightarrow> args @ [getReferenceExportCode X n context]);
          args = (case kw_defaults_name of None \<Rightarrow> args | Some n \<Rightarrow> args @ [n]);
          args = (case annotations_name of None \<Rightarrow> args | Some n \<Rightarrow> args @ [n]);
          args = args @ getClosureVariableProvisionCode X context closure_variables;
          codes = [to_name @ '' = MAKE_FUNCTION_'' @ function_identifier @ ''( ''
                     @ join '', '' args @ '' );''];
          context = (case defaults_name of
                       None \<Rightarrow> context
                     | Some n \<Rightarrow>
                         if needsCleanup n context then removeCleanupTempName n context
                         else context);
          context = (case kw_defaults_name of
                       None \<Rightarrow> context
                     | Some n \<Rightarrow>
                         if needsCleanup n context then removeCleanupTempName n context
                         else context);
          context = addCleanupTempName to_name context
      in (codes, context))"

text \<open>
  The nested helpers \<open>handleKwDefaults\<close> and \<open>handleDefaults\<close> of
  \<open>generateFunctionCreationCode\<close>. The assertion on a constant keyword-defaults
  expression fails when the constant is the empty mapping.
\<close>

definition handleKwDefaults ::
  "collaborators \<Rightarrow> expression option \<Rightarrow> gen_context \<Rightarrow>
   error + (string option \<times> string list \<times> gen_context)" where
  "handleKwDefaults X kw_defaults context =
     (case kw_defaults of
        Some e \<Rightarrow>
          (let (kw_defaults_name, context) = allocateTempName X ''kw_defaults'' context
           in if (case e of ExpressionConstantRef c \<Rightarrow> c = ConstDict []
                           | ExpressionComputed _ \<Rightarrow> False)
              then Inl (AssertionError KwDefaultsNotEmptyConstant)
              else (let (codes, context) = generateExpressionCode X kw_defaults_name e context
                    in Inr (Some kw_defaults_name, codes, context)))
      | None \<Rightarrow> Inr (None, [], context))"

definition handleDefaults ::
  "collaborators \<Rightarrow> expression list \<Rightarrow> gen_context \<Rightarrow> string option \<times> string list \<times> gen_context"
  where
  "handleDefaults X defaults context =
     (if defaults \<noteq> [] then
        (let (defaults_name, context) = allocateTempName X ''defaults'' context;
             (codes, context) = generateTupleCreationCode X defaults_name defaults context
         in (Some defaults_name, codes, context))
      else (None, [], context))"

text \<open>
  The first part of \<open>generateFunctionCreationCode\<close>: the assertion on the function
  body, then the temporaries for defaults and keyword defaults in the order that
  \<open>defaults_first\<close> selects, then the one for the annotations. It yields the three
  names, the lines emitted and the context.
\<close>

definition generateFunctionCreationCode_names ::
  "collaborators \<Rightarrow> function_body \<Rightarrow> expression list \<Rightarrow> expression option \<Rightarrow>
   expression option \<Rightarrow> bool \<Rightarrow> gen_context \<Rightarrow>
   error + (string option \<times> string option \<times> string option \<times> string list \<times> gen_context)" where
  "generateFunctionCreationCode_names X function_body defaults kw_defaults annotations
      defaults_first context =
     (if \<not> needsCreation function_body then Inl (AssertionError BodyNeedsCreation)
      else
        (case (if defaults_first then
                 (let (defaults_name, codes_d, context) = handleDefaults X defaults context
                  in case handleKwDefaults X kw_defaults context of
                       Inl e \<Rightarrow> Inl e
                     | Inr (kw_defaults_name, codes_k, context) \<Rightarrow>
                         Inr (defaults_name, kw_defaults_name, codes_d @ codes_k, context))
               else
                 (case handleKwDefaults X kw_defaults context of
                    Inl e \<Rightarrow> Inl e
                  | Inr (kw_defaults_name, codes_k, context) \<Rightarrow>
                      (let (defaults_name, codes_d, context) = handleDefaults X defaults context
                       in Inr (defaults_name, kw_defaults_name, codes_k @ codes_d, context))))
         of
           Inl e \<Rightarrow> Inl e
         | Inr (defaults_name, kw_defaults_name, codes, context) \<Rightarrow>
             (case annotations of
                Some e \<Rightarrow>
                  (let (annotations_name, context) = allocateTempName X ''annotations'' context;
                       (codes_a, context) = generateExpressionCode X annotations_name e context
                   in Inr (defaults_name, kw_defaults_name, Some annotations_name,
                           codes @ codes_a, context))
              | None \<Rightarrow> Inr (defaults_name, kw_defaults_name, None, codes, context))))"

text \<open>
  The middle part, under the comment ``Creation code needs to be done only once'': when
  the identity has no helper code yet, the constructor body and its declaration are
  produced and registered. (The list \<open>var_names\<close> that the source builds there is
  not used afterwards; the handle receives the names of the code object.)
\<close>

definition generateFunctionCreationCode_maker ::
  "collaborators \<Rightarrow> templates \<Rightarrow> function_body \<Rightarrow> code_object \<Rightarrow> string option \<Rightarrow> string option \<Rightarrow>
   string option \<Rightarrow> gen_context \<Rightarrow> error + gen_context" where
  "generateFunctionCreationCode_maker X T function_body code_object defaults_name
      kw_defaults_name annotations_name context =
     (let function_identifier = function_body.getCodeName function_body
      in if \<not> hasHelperCode function_identifier context then
           (let parameters = getParameters function_body;
                code_identifier = getCodeObjectHandle X context
                  \<lparr>handle_filename = getRunTimeFilename function_body,
                   handle_var_names = getVarNames code_object,
                   handle_arg_count = getArgumentCount code_object,
                   handle_kw_only_count = getKwOnlyParameterCount code_object,
                   handle_line_number = getLineNumber function_body,
                   handle_code_name = getFunctionName function_body,
                   handle_is_generator = isGenerator function_body,
                   handle_is_optimized = (\<not> needsLocalsDict function_body),
                   handle_new_locals = True,
                   handle_has_starlist = (getStarListArgumentName parameters \<noteq> None),
                   handle_has_stardict = (getStarDictArgumentName parameters \<noteq> None),
                   handle_has_closure = (getClosureVariables function_body \<noteq> []),
                   handle_future_flags = getFutureFlags function_body\<rparr>
            in case getFunctionMakerCode X T (getFunctionName function_body)
                      (getFunctionQualname function_body) function_identifier code_identifier
                      parameters (getClosureVariables function_body) defaults_name
                      kw_defaults_name annotations_name (getDoc function_body)
                      (isGenerator function_body) context of
                 Inl e \<Rightarrow> Inl e
               | Inr maker_code \<Rightarrow>
                   (let context = addHelperCode function_identifier maker_code context
                    in case getFunctionMakerDecl X T (function_body.getCodeName function_body)
                              defaults_name kw_defaults_name annotations_name
                              (getClosureVariables function_body) of
                         Inl e \<Rightarrow> Inl e
                       | Inr function_decl \<Rightarrow>
                           Inr (addDeclaration function_identifier function_decl context)))
         else Inr context)"

definition generateFunctionCreationCode ::
  "collaborators \<Rightarrow> templates \<Rightarrow> string \<Rightarrow> function_body \<Rightarrow> code_object \<Rightarrow> expression list \<Rightarrow>
   expression option \<Rightarrow> expression option \<Rightarrow> bool \<Rightarrow> gen_context \<Rightarrow>
   error + (string list \<times> gen_context)" where
  "generateFunctionCreationCode X T to_name function_body code_object defaults kw_defaults
      annotations defaults_first context =
     (case generateFunctionCreationCode_names X function_body defaults kw_defaults annotations
             defaults_first context of
        Inl e \<Rightarrow> Inl e
      | Inr (defaults_name, kw_defaults_name, annotations_name, codes, context) \<Rightarrow>
          (case generateFunctionCreationCode_maker X T function_body code_object defaults_name
                  kw_defaults_name annotations_name context of
             Inl e \<Rightarrow> Inl e
           | Inr context \<Rightarrow>
               (let (codes_c, context) =
                      getFunctionCreationCode X to_name (function_body.getCodeName function_body)
                        defaults_name kw_defaults_name annotations_name
                        (getClosureVariables function_body) context;
                    (codes_r, context) = getReleaseCode annotations_name context
                in Inr (codes @ codes_c @ codes_r, context))))"

section \<open>Direct calls\<close>

text \<open>
  The first loop of \<open>getDirectFunctionCallCode\<close> over the argument names: an argument
  that needs cleanup is struck from the ledger, any other receives a reference.
\<close>

fun getDirectFunctionCallCode_references ::
  "string list \<Rightarrow> gen_context \<Rightarrow> string list \<times> gen_context" where
  "getDirectFunctionCallCode_references [] context = ([], context)"
| "getDirectFunctionCallCode_references (arg_name # arg_names) context =
     (if needsCleanup arg_name context
      then getDirectFunctionCallCode_references arg_names
             (removeCleanupTempName arg_name context)
      else (let (codes, context) = getDirectFunctionCallCode_references arg_names context
            in ((''Py_INCREF( '' @ arg_name @ '' );'') # codes, context)))"

text \<open>The second loop, after the call: ``Arguments are owned to the called''.\<close>

fun getDirectFunctionCallCode_owned :: "string list \<Rightarrow> gen_context \<Rightarrow> gen_context" where
  "getDirectFunctionCallCode_owned [] context = context"
| "getDirectFunctionCallCode_owned (arg_name # arg_names) context =
     getDirectFunctionCallCode_owned arg_names
       (if needsCleanup arg_name context then removeCleanupTempName arg_name context
        else context)"

definition getDirectFunctionCallCode ::
  "collaborators \<Rightarrow> string \<Rightarrow> string \<Rightarrow> string list \<Rightarrow> variable list \<Rightarrow> bool \<Rightarrow> gen_context \<Rightarrow>
   string list \<times> gen_context" where
  "getDirectFunctionCallCode X to_name function_identifier arg_names closure_variables
      needs_check context =
     (let function_identifier = getDirectFunctionEntryPointIdentifier X function_identifier;
          suffix_args = getClosureVariableProvisionCode X context closure_variables;
          (codes_i, context) = getDirectFunctionCallCode_references arg_names context;
          codes_c = [to_name @ '' = '' @ function_identifier @ ''( ''
                       @ join '', '' (arg_names @ suffix_args) @ '' );''];
          context = getDirectFunctionCallCode_owned arg_names context;
          (codes_e, context) = getErrorExitCode X to_name needs_check context;
          context = addCleanupTempName to_name context
      in (codes_i @ codes_c @ codes_e, context))"

definition getFunctionDirectClosureArgs :: "collaborators \<Rightarrow> variable list \<Rightarrow> string list" where
  "getFunctionDirectClosureArgs X closure_variables =
     foldl (\<lambda>result closure_variable.
              if isSharedTechnically closure_variable
              then result @ [''PyCellObject *'' @ getVariableCodeName X True closure_variable]
              else result @ [''PyObject *&'' @ getVariableCodeName X True closure_variable])
       [] closure_variables"

section \<open>Function bodies\<close>

definition newline :: string where
  "newline = [CHR 0x0A]"

text \<open>
  The declarations of the temporaries of the context, and the initialisations of the
  outline return values: the same two passages stand in \<open>getFunctionCode\<close>,
  \<open>getGeneratorFunctionCode\<close> and \<open>getGeneratorObjectCode\<close>.
\<close>

definition temp_declarations :: "gen_context \<Rightarrow> string list" where
  "temp_declarations context =
     map (\<lambda>(tmp_name, tmp_type).
            tmp_type @ (if \<not> endswith tmp_type (CHR ''*'') then '' '' else []) @ tmp_name @ '';'')
       (getTempNameInfos context)"

definition outline_return_inits :: "gen_context \<Rightarrow> string list" where
  "outline_return_inits context =
     map (\<lambda>(tmp_name, tmp_type). tmp_name @ '' = NULL;'')
       (filter (\<lambda>(tmp_name, tmp_type). prefix ''tmp_outline_return_value_'' tmp_name)
          (getTempNameInfos context))"

text \<open>
  The source also renders \<open>function_doc\<close> as a constant in \<open>getFunctionCode\<close> and
  \<open>getGeneratorFunctionCode\<close> without using the result; the parameter is kept.
\<close>

text \<open>
  The exit section of \<open>getFunctionCode\<close>: the guard that must not be reached, then the
  exception exit when the body can raise, then the return exit when the context has the
  temporary \<open>return_value\<close>.
\<close>

definition getFunctionCode_function_exit ::
  "collaborators \<Rightarrow> templates \<Rightarrow> gen_context \<Rightarrow> bool \<Rightarrow> error + string" where
  "getFunctionCode_function_exit X T context needs_exception_exit =
     (let function_cleanup =
            (if hasLocalsDict context then ''Py_DECREF( locals_dict );'' @ newline else []);
          emit_codes =
            getMustNotGetHereCode X ''Return statement must have exited already.'' context;
          function_exit = indented X emit_codes @ newline @ newline
      in case (if needs_exception_exit then
                 (case py_format (template_function_exception_exit T)
                         [(''function_cleanup'', PyStr function_cleanup)] of
                    Inl e \<Rightarrow> Inl e
                  | Inr block \<Rightarrow> Inr (function_exit @ block))
               else Inr function_exit) of
           Inl e \<Rightarrow> Inl e
         | Inr function_exit \<Rightarrow>
             if hasTempName context ''return_value'' then
               (case py_format (template_function_return_exit T)
                       [(''function_cleanup'', PyStr (indented_text X function_cleanup))] of
                  Inl e \<Rightarrow> Inl e
                | Inr block \<Rightarrow> Inr (function_exit @ indented_text X block))
             else Inr function_exit)"

definition getFunctionCode ::
  "collaborators \<Rightarrow> templates \<Rightarrow> gen_context \<Rightarrow> string \<Rightarrow> string \<Rightarrow> parameters \<Rightarrow> variable list \<Rightarrow>
   variable list \<Rightarrow> variable list \<Rightarrow> string list \<Rightarrow> pyconstant \<Rightarrow> string \<Rightarrow> bool \<Rightarrow>
   error + string" where
  "getFunctionCode X T context function_name function_identifier parameters closure_variables
      user_variables temp_variables function_codes function_doc file_scope needs_exception_exit =
     (let (parameter_variables, entry_point_code, parameter_objects_decl) =
            getParameterParsingCode X function_identifier function_name parameters
              (isForCreatedFunction context) context;
          function_parameter_decl =
            map (\<lambda>variable. getLocalVariableInitCode X variable
                               (Some (''_python_par_'' @ variable.getCodeName variable)))
              parameter_variables;
          local_var_inits =
            map (\<lambda>variable. getLocalVariableInitCode X variable None)
              (user_variables @ temp_variables);
          local_var_inits =
            (if needsExceptionVariables context
             then local_var_inits @ getErrorVariableDeclarations X else local_var_inits);
          local_var_inits =
            foldl (\<lambda>inits keeper_index. inits @ getExceptionKeeperVariableNames X keeper_index)
              local_var_inits [1 ..< getKeeperVariableCount context + 1];
          local_var_inits =
            foldl (\<lambda>inits preserver_id. inits @ getExceptionPreserverVariableNames X preserver_id)
              local_var_inits (getExceptionPreserverCounts context);
          local_var_inits = local_var_inits @ temp_declarations context;
          local_var_inits = local_var_inits @ getFrameDeclarations context;
          local_var_inits =
            (if hasTempName context ''return_value''
             then local_var_inits @ [''tmp_return_value = NULL;''] else local_var_inits);
          local_var_inits = local_var_inits @ outline_return_inits context;
          function_locals =
            (if hasLocalsDict context then split_lines (function_dict_setup T) else []);
          function_locals = function_locals @ function_parameter_decl @ local_var_inits
      in case getFunctionCode_function_exit X T context needs_exception_exit of
           Inl e \<Rightarrow> Inl e
         | Inr function_exit \<Rightarrow>
             (case (if isForDirectCall context then
                      py_format (function_direct_body_template T)
                        [(''file_scope'', PyStr file_scope),
                         (''function_identifier'', PyStr function_identifier),
                         (''direct_call_arg_spec'',
                            PyStr (join '', '' (parameter_objects_decl
                                     @ getFunctionDirectClosureArgs X closure_variables))),
                         (''function_locals'', PyStr (indented X function_locals)),
                         (''function_body'', PyStr (indented X function_codes)),
                         (''function_exit'', PyStr function_exit)]
                    else
                      py_format (template_function_body T)
                        [(''function_identifier'', PyStr function_identifier),
                         (''parameter_objects_decl'', PyStr (join '', '' parameter_objects_decl)),
                         (''function_locals'', PyStr (indented X function_locals)),
                         (''function_body'', PyStr (indented X function_codes)),
                         (''function_exit'', PyStr function_exit)]) of
                Inl e \<Rightarrow> Inl e
              | Inr result \<Rightarrow>
                  Inr (if isForCreatedFunction context then result @ entry_point_code
                       else result)))"

section \<open>Generators\<close>

text \<open>
  The exit of the resumable body, composed in the same way by
  \<open>getGeneratorFunctionCode\<close> and \<open>getGeneratorObjectCode\<close>.
\<close>

definition generator_exit :: "templates \<Rightarrow> bool \<Rightarrow> bool \<Rightarrow> error + string" where
  "generator_exit T needs_exception_exit needs_generator_return =
     (case (if needs_exception_exit then py_format (template_generator_exception_exit T) []
            else py_format (template_generator_noexception_exit T) []) of
        Inl e \<Rightarrow> Inl e
      | Inr generator_exit \<Rightarrow>
          if needs_generator_return then
            (case py_format (template_generator_return_exit T) [] of
               Inl e \<Rightarrow> Inl e
             | Inr block \<Rightarrow> Inr (generator_exit @ block))
          else Inr generator_exit)"

text \<open>The local declarations of a resumable body.\<close>

definition generator_function_locals ::
  "collaborators \<Rightarrow> templates \<Rightarrow> gen_context \<Rightarrow> variable list \<Rightarrow> variable list \<Rightarrow> string list"
  where
  "generator_function_locals X T context user_variables temp_variables =
     (let function_locals =
            map (\<lambda>user_variable. getLocalVariableInitCode X user_variable None)
              (user_variables @ temp_variables);
          function_locals =
            (if hasLocalsDict context
             then function_locals @ split_lines (function_dict_setup T) else function_locals);
          function_locals =
            (if needsExceptionVariables context
             then function_locals @ getErrorVariableDeclarations X else function_locals);
          function_locals =
            foldl (\<lambda>inits keeper_index. inits @ getExceptionKeeperVariableNames X keeper_index)
              function_locals [1 ..< getKeeperVariableCount context + 1];
          function_locals =
            foldl (\<lambda>inits preserver_id. inits @ getExceptionPreserverVariableNames X preserver_id)
              function_locals (getExceptionPreserverCounts context);
          function_locals = function_locals @ temp_declarations context;
          function_locals = function_locals @ getFrameDeclarations context;
          function_locals =
            (if hasTempName context ''generator_return''
             then function_locals @ [''tmp_generator_return = false;''] else function_locals);
          function_locals =
            (if hasTempName context ''return_value''
             then function_locals @ [''tmp_return_value = NULL;''] else function_locals)
      in function_locals @ outline_return_inits context)"

definition getGeneratorObjectCode ::
  "collaborators \<Rightarrow> templates \<Rightarrow> gen_context \<Rightarrow> string \<Rightarrow> variable list \<Rightarrow> variable list \<Rightarrow>
   string list \<Rightarrow> bool \<Rightarrow> bool \<Rightarrow> error + string" where
  "getGeneratorObjectCode X T context function_identifier user_variables temp_variables
      function_codes needs_exception_exit needs_generator_return =
     (let function_locals = generator_function_locals X T context user_variables temp_variables
      in case generator_exit T needs_exception_exit needs_generator_return of
           Inl e \<Rightarrow> Inl e
         | Inr exit_code \<Rightarrow>
             py_format (template_genfunc_yielder_body_template T)
               [(''function_identifier'', PyStr function_identifier),
                (''function_body'', PyStr (indented X function_codes)),
                (''function_var_inits'', PyStr (indented X function_locals)),
                (''generator_exit'', PyStr exit_code)])"

text \<open>
  The copy of the parameters into the array owned by the generator object, and the
  declaration built from it: \<open>parameter_copy\<close> and \<open>parameters_decl\<close> of
  \<open>getGeneratorFunctionCode\<close>.
\<close>

definition parameter_copy :: "variable list \<Rightarrow> string list" where
  "parameter_copy parameter_variables =
     map (\<lambda>(count, variable).
            if isSharedTechnically variable
            then ''parameters['' @ string_of_nat count @ ''] = (PyObject *)PyCell_NEW1( _python_par_''
                   @ variable.getCodeName variable @ '' );''
            else ''parameters['' @ string_of_nat count @ ''] = _python_par_''
                   @ variable.getCodeName variable @ '';'')
       (enumerate 0 parameter_variables)"

definition parameters_decl :: "collaborators \<Rightarrow> templates \<Rightarrow> variable list \<Rightarrow> error + string" where
  "parameters_decl X T parameter_variables =
     (let parameter_count = length parameter_variables
      in if parameter_count > 0 then
           py_format (template_genfunc_generator_with_parameters T)
             [(''parameter_copy'', PyStr (indented X (parameter_copy parameter_variables))),
              (''parameter_count'', PyInt parameter_count)]
         else py_format (template_genfunc_generator_no_parameters T) [])"

text \<open>The capture array of the generator object: \<open>closure_decl\<close>.\<close>

definition closure_decl ::
  "collaborators \<Rightarrow> templates \<Rightarrow> gen_context \<Rightarrow> variable list \<Rightarrow> error + string" where
  "closure_decl X T context closure_variables =
     (let closure_count = length closure_variables
      in if closure_count > 0 then
           (if isForDirectCall context then
              (let closure_copy =
                     concat (map (\<lambda>(count, variable).
                                    [''closure['' @ string_of_nat count @ ''] = ''
                                       @ getVariableCodeName X True variable @ '';'',
                                     ''Py_INCREF( closure['' @ string_of_nat count @ ''] );''])
                               (enumerate 0 closure_variables))
               in py_format (template_genfunc_generator_with_own_closure T)
                    [(''closure_copy'', PyStr (join newline closure_copy)),
                     (''closure_count'', PyInt closure_count)])
            else py_format (template_genfunc_generator_with_parent_closure T)
                   [(''closure_count'', PyInt closure_count)])
         else py_format (template_genfunc_generator_no_closure T) [])"

definition getGeneratorFunctionCode ::
  "collaborators \<Rightarrow> templates \<Rightarrow> gen_context \<Rightarrow> string \<Rightarrow> string \<Rightarrow> string \<Rightarrow> string \<Rightarrow> parameters \<Rightarrow>
   variable list \<Rightarrow> variable list \<Rightarrow> variable list \<Rightarrow> string list \<Rightarrow> pyconstant \<Rightarrow> bool \<Rightarrow> bool \<Rightarrow>
   error + string" where
  "getGeneratorFunctionCode X T context function_name function_qualname function_identifier
      code_identifier parameters closure_variables user_variables temp_variables function_codes
      function_doc needs_exception_exit needs_generator_return =
     (let (parameter_variables, entry_point_code, parameter_objects_decl) =
            getParameterParsingCode X function_identifier function_name parameters
              (isForCreatedFunction context) context;
          parameter_objects_decl =
            (if isForDirectCall context then
               foldl (\<lambda>decl variable. decl @ [''PyCellObject *'' @ getVariableCodeName X True variable])
                 parameter_objects_decl closure_variables
             else parameter_objects_decl);
          function_locals = generator_function_locals X T context user_variables temp_variables
      in case generator_exit T needs_exception_exit needs_generator_return of
           Inl e \<Rightarrow> Inl e
         | Inr exit_code \<Rightarrow>
         (case py_format (template_genfunc_yielder_body_template T)
                 [(''function_identifier'', PyStr function_identifier),
                  (''function_body'', PyStr (indented X function_codes)),
                  (''function_var_inits'', PyStr (indented X function_locals)),
                  (''generator_exit'', PyStr exit_code)] of
            Inl e \<Rightarrow> Inl e
          | Inr result \<Rightarrow>
          (case parameters_decl X T parameter_variables of
             Inl e \<Rightarrow> Inl e
           | Inr parameters_decl_code \<Rightarrow>
           (case closure_decl X T context closure_variables of
              Inl e \<Rightarrow> Inl e
            | Inr closure_decl_code \<Rightarrow>
              (let function_name_obj =
                     (if python_version X < 350 \<or> isForDirectCall context
                      then getConstantCode X (ConstStr function_name) context
                      else ''self->m_name'');
                   function_qualname_obj =
                     (if python_version X < 350 then ''NULL''
                      else if isForDirectCall context
                      then getConstantCode X (ConstStr function_qualname) context
                      else ''self->m_qualname'')
               in case py_format (template_genfunc_function_impl_template T)
                         [(''function_name'', PyStr function_name),
                          (''function_name_obj'', PyStr function_name_obj),
                          (''function_qualname_obj'', PyStr function_qualname_obj),
                          (''function_identifier'', PyStr function_identifier),
                          (''code_identifier'', PyStr code_identifier),
                          (''parameter_decl'', PyStr parameters_decl_code),
                          (''parameter_count'', PyInt (length parameter_variables)),
                          (''closure_decl'', PyStr closure_decl_code),
                          (''closure_count'', PyInt (length closure_variables)),
                          (''parameter_objects_decl'',
                             PyStr (join '', '' parameter_objects_decl))] of
                    Inl e \<Rightarrow> Inl e
                  | Inr impl \<Rightarrow>
                      Inr (if isForCreatedFunction context
                           then result @ impl @ entry_point_code else result @ impl))))))"

text \<open>
  \<open>generateMakeGeneratorObjectCode\<close>. The expression hands over the body of the
  generator object and its code object. The mapping for the template comes first.
\<close>

definition generateMakeGeneratorObjectCode_values ::
  "collaborators \<Rightarrow> string \<Rightarrow> function_body \<Rightarrow> code_object \<Rightarrow> gen_context \<Rightarrow>
   (string \<times> pyval) list" where
  "generateMakeGeneratorObjectCode_values X to_name generator_object_body code_object context =
     (let generator_name = getFunctionName generator_object_body;
          generator_qualname = getFunctionQualname generator_object_body;
          generator_name_obj = getConstantCode X (ConstStr generator_name) context;
          generator_qualname_obj =
            (if python_version X < 330 \<or> generator_qualname = generator_name then ''NULL''
             else getConstantCode X (ConstStr generator_qualname) context);
          code_identifier = getCodeObjectHandle X context
            \<lparr>handle_filename = getRunTimeFilename generator_object_body,
             handle_var_names = getVarNames code_object,
             handle_arg_count = getArgumentCount code_object,
             handle_kw_only_count = getKwOnlyParameterCount code_object,
             handle_line_number = getLineNumber generator_object_body,
             handle_code_name = getCodeObjectName code_object,
             handle_is_generator = True,
             handle_is_optimized = True,
             handle_new_locals = (\<not> needsLocalsDict generator_object_body),
             handle_has_starlist = False,
             handle_has_stardict = False,
             handle_has_closure = (length (getClosureVariables generator_object_body) > 0),
             handle_future_flags = getFutureFlags generator_object_body\<rparr>
      in [(''to_name'', PyStr to_name),
          (''generator_identifier'', PyStr (function_body.getCodeName generator_object_body)),
          (''generator_name_obj'', PyStr generator_name_obj),
          (''generator_qualname_obj'', PyStr generator_qualname_obj),
          (''code_identifier'', PyStr code_identifier)])"

definition generateMakeGeneratorObjectCode ::
  "collaborators \<Rightarrow> templates \<Rightarrow> string \<Rightarrow> function_body \<Rightarrow> code_object \<Rightarrow> gen_context \<Rightarrow>
   error + (string list \<times> gen_context)" where
  "generateMakeGeneratorObjectCode X T to_name generator_object_body code_object context =
     (let closure_variables = getClosureVariables generator_object_body;
          vals = generateMakeGeneratorObjectCode_values X to_name generator_object_body
                   code_object context
      in case (if closure_variables \<noteq> [] then
                 (let closure_copy =
                        concat (map (\<lambda>(count, variable).
                                       [''closure['' @ string_of_nat count @ ''] = ''
                                          @ getVariableCode X context variable @ '';'',
                                        ''Py_INCREF( closure['' @ string_of_nat count @ ''] );''])
                                  (enumerate 0 closure_variables))
                  in case py_format (template_genfunc_generator_with_own_closure T)
                            [(''closure_copy'', PyStr (indented X closure_copy)),
                             (''closure_count'', PyInt (length closure_variables))] of
                       Inl e \<Rightarrow> Inl e
                     | Inr closure_making \<Rightarrow>
                         py_format (template_generator_making_with_context T)
                           ((''closure_making'', PyStr closure_making) # vals
                            @ [(''closure_count'', PyInt (length closure_variables))]))
               else py_format (template_generator_making_without_context T) vals) of
           Inl e \<Rightarrow> Inl e
         | Inr code \<Rightarrow> Inr ([code], addCleanupTempName to_name context))"

section \<open>Several creations of one callable\<close>



text \<open>
  The constructor bodies and the declarations that the context holds for one identity,
  in the order of their registration.
\<close>

definition helper_codes_of :: "string \<Rightarrow> gen_context \<Rightarrow> string list" where
  "helper_codes_of key context =
     map snd (filter (\<lambda>(k, code). k = key) (helper_codes context))"

definition declarations_of :: "string \<Rightarrow> gen_context \<Rightarrow> string list" where
  "declarations_of key context =
     map snd (filter (\<lambda>(k, code). k = key) (declaration_codes context))"

text \<open>A step of a collaborator leaves what is registered for an identity as it is.\<close>

definition keeps_identity :: "string \<Rightarrow> gen_context \<Rightarrow> gen_context \<Rightarrow> bool" where
  "keeps_identity key context context' =
     (helper_codes_of key context' = helper_codes_of key context
      \<and> declarations_of key context' = declarations_of key context)"

section \<open>A concrete instance\<close>

text \<open>
  One instance of the collaborators, the templates and the front-end data, on which the
  results below are exercised. The collaborators follow the naming of the generated code
  (\<open>closure_x\<close>, \<open>const_str_plain_f\<close>, \<open>tmp_defaults\<close>); the templates are short texts
  with the keys that the module supplies.
\<close>

definition example_constant_code :: "pyconstant \<Rightarrow> string" where
  "example_constant_code c =
     (case c of
        ConstNone \<Rightarrow> ''Py_None''
      | ConstStr s \<Rightarrow> ''const_str_plain_'' @ s
      | ConstDict _ \<Rightarrow> ''const_dict_empty'')"

definition example_collaborators :: collaborators where
  "example_collaborators =
     \<lparr>python_version = 340,
      getVariableCodeName =
        (\<lambda>in_context v. (if in_context then ''closure_'' else ''var_'') @ variable.getCodeName v),
      getVariableCode = (\<lambda>context v. ''var_'' @ variable.getCodeName v),
      getConstantCode = (\<lambda>c context. example_constant_code c),
      getCodeObjectHandle = (\<lambda>context h. ''codeobj_'' @ handle_code_name h),
      getModuleAccessCode = (\<lambda>context. ''module_main''),
      getReferenceExportCode = (\<lambda>n context. ''INCREASE_REFCOUNT( '' @ n @ '' )''),
      getParameterEntryPointIdentifier = (\<lambda>i. ''fparse_'' @ i),
      getQuickEntryPointIdentifier = (\<lambda>i p. ''dparse_'' @ i),
      getDirectFunctionEntryPointIdentifier = (\<lambda>i. ''impl_'' @ i),
      getParameterParsingCode = (\<lambda>i n p c context. ([], [], [])),
      getLocalVariableInitCode = (\<lambda>v init. ''PyObject *var_'' @ variable.getCodeName v @ '';''),
      getErrorVariableDeclarations = [''PyObject *exception_type = NULL;''],
      getExceptionKeeperVariableNames = (\<lambda>i. []),
      getExceptionPreserverVariableNames = (\<lambda>i. []),
      getMustNotGetHereCode = (\<lambda>reason context. [''NUITKA_CANNOT_GET_HERE( f );'', ''return NULL;'']),
      getErrorExitCode =
        (\<lambda>n check context.
           ((if check then [''if ( '' @ n @ '' == NULL ) goto frame_exception_exit_1;''] else []),
            context)),
      context_getConstantCode = (\<lambda>context c. example_constant_code c),
      indented = (\<lambda>codes. join newline (map (\<lambda>l. ''    '' @ l) codes)),
      indented_text = (\<lambda>t. join newline (map (\<lambda>l. ''    '' @ l) (split_lines t))),
      allocateTempName = (\<lambda>base context. (''tmp_'' @ base, context)),
      generateExpressionCode =
        (\<lambda>to_name e context. ([to_name @ '' = EXPR;''], addCleanupTempName to_name context)),
      generateTupleCreationCode =
        (\<lambda>to_name es context. ([to_name @ '' = TUPLE;''], addCleanupTempName to_name context))\<rparr>"

definition example_templates :: templates where
  "example_templates =
     \<lparr>template_function_make_declaration =
        ''PyObject *MAKE_FUNCTION_%(function_identifier)s( %(function_creation_arg_spec)s );'',
      template_make_function_with_context_template =
        ''MAKE %(function_identifier)s( %(function_creation_args)s ) %(context_copy)s %(closure_count)d %(function_qualname_obj)s %(defaults)s %(kw_defaults)s %(annotations)s'',
      template_make_function_without_context_template =
        ''MAKE %(function_identifier)s( %(function_creation_args)s ) %(function_qualname_obj)s %(defaults)s %(kw_defaults)s %(annotations)s'',
      template_make_genfunc_with_context_template =
        ''MAKEGEN %(function_identifier)s( %(function_creation_args)s ) %(closure_count)d'',
      template_make_genfunc_without_context_template =
        ''MAKEGEN %(function_identifier)s( %(function_creation_args)s )'',
      function_dict_setup = ''PyObject *locals_dict = PyDict_New();'',
      function_direct_body_template = ''%(function_identifier)s %(function_exit)s'',
      template_function_body = ''%(function_identifier)s %(function_exit)s'',
      template_function_exception_exit =
        ''function_exception_exit: %(function_cleanup)s return NULL;'',
      template_function_return_exit =
        ''function_return_exit: %(function_cleanup)s return tmp_return_value;'',
      template_generator_exception_exit = ''stop; function_exception_exit: raise;'',
      template_generator_noexception_exit = ''stop;'',
      template_generator_return_exit = ''function_return_exit: return;'',
      template_genfunc_yielder_body_template = ''%(function_identifier)s %(generator_exit)s'',
      template_genfunc_generator_with_parameters =
        ''PyObject **parameters[%(parameter_count)d]; %(parameter_copy)s'',
      template_genfunc_generator_no_parameters = ''PyObject **parameters = NULL;'',
      template_genfunc_generator_with_own_closure =
        ''closure[%(closure_count)d]; %(closure_copy)s'',
      template_genfunc_generator_with_parent_closure = ''closure = self->closure;'',
      template_genfunc_generator_no_closure = ''closure = NULL;'',
      template_genfunc_function_impl_template = ''%(function_identifier)s %(parameter_decl)s'',
      template_generator_making_with_context =
        ''%(to_name)s = MAKEGENOBJ( %(generator_qualname_obj)s, %(closure_count)d );'',
      template_generator_making_without_context =
        ''%(to_name)s = MAKEGENOBJ( %(generator_qualname_obj)s );''\<rparr>"

definition example_context :: gen_context where
  "example_context =
     \<lparr>helper_codes = [], declaration_codes = [], cleanup_names = [''tmp_other''],
      hasTempName = (\<lambda>n. n = ''return_value''), getTempNameInfos = [],
      hasLocalsDict = False, needsExceptionVariables = False, getKeeperVariableCount = 0,
      getExceptionPreserverCounts = [], getFrameDeclarations = [], isForDirectCall = False,
      isForCreatedFunction = True\<rparr>"

definition example_shared :: variable where
  "example_shared =
     \<lparr>getName = ''x'', getCodeName = ''x'', isSharedTechnically = True,
      isParameterVariable = True\<rparr>"


definition example_body :: function_body where
  "example_body =
     \<lparr>needsCreation = True, getCodeName = ''function_1_f'', getFunctionName = ''f'',
      getFunctionQualname = ''C.f'', getDoc = ConstNone,
      getParameters =
        \<lparr>getCoArgNames = [], getStarListArgumentName = None, getStarDictArgumentName = None\<rparr>,
      getClosureVariables = [example_shared], getLocalVariables = [], isGenerator = False,
      needsLocalsDict = False, getRunTimeFilename = ''main.py'', getLineNumber = 1,
      getFutureFlags = []\<rparr>"

definition example_code_object :: code_object where
  "example_code_object =
     \<lparr>getVarNames = [], getArgumentCount = 0, getKwOnlyParameterCount = 0,
      getCodeObjectName = ''f''\<rparr>"


section \<open>Auxiliary facts\<close>

lemma foldl_snoc_map: "foldl (\<lambda>acc x. acc @ [f x]) acc xs = acc @ map f xs"
  by (induction xs arbitrary: acc) simp_all

lemma prepend_not_assertion:
  "r \<noteq> Inl (AssertionError a) \<Longrightarrow> prepend s r \<noteq> Inl (AssertionError a)"
  by (cases r) (simp_all add: prepend_def)

text \<open>Filling a template never fails with an assertion.\<close>

lemma py_format_not_assertion: "py_format t vals \<noteq> Inl (AssertionError a)"
proof (induction t vals rule: py_format.induct)
  case (1 vals)
  show ?case by simp
next
  case (2 c cs vals)
  show ?case
  proof (cases "c \<noteq> CHR ''%''")
    case True
    with 2(1) show ?thesis by (simp add: prepend_not_assertion)
  next
    case False
    note c = this
    show ?thesis
    proof (cases cs)
      case Nil
      with c show ?thesis by simp
    next
      case (Cons d ds)
      show ?thesis
      proof (cases "d = CHR ''%''")
        case True
        with c Cons 2(2) show ?thesis by (simp add: prepend_not_assertion)
      next
        case False
        with c Cons 2(3,4) show ?thesis
          by (simp add: prepend_not_assertion split: list.splits option.splits pyval.splits)
      qed
    qed
  qed
qed

lemma py_format_error: "py_format t vals = Inl e \<Longrightarrow> e \<noteq> AssertionError a"
  using py_format_not_assertion[of t vals a] by auto



lemma cleanup_remove [simp]:
  "cleanup_names (removeCleanupTempName n c) = removeAll n (cleanup_names c)"
  by (simp add: removeCleanupTempName_def)

lemma cleanup_add [simp]: "cleanup_names (addCleanupTempName n c) = cleanup_names c @ [n]"
  by (simp add: addCleanupTempName_def)

lemma creation_code_result:
  "\<exists>args. getFunctionCreationCode X to_name ident d k a cvs ctx =
     ([to_name @ '' = MAKE_FUNCTION_'' @ ident @ ''( '' @ args @ '' );''],
      addCleanupTempName to_name
        ((case k of None \<Rightarrow> id | Some n \<Rightarrow> removeCleanupTempName n)
          ((case d of None \<Rightarrow> id | Some n \<Rightarrow> removeCleanupTempName n) ctx)))"
  by (cases d; cases k)
     (auto simp: getFunctionCreationCode_def Let_def needsCleanup_def
        removeCleanupTempName_def)

section \<open>The constructor's argument list\<close>

text \<open>
  C2. For every combination of present and absent names and every list of closure
  variables, the argument list of the constructor declaration consists of the defaults
  pointer, the keyword-defaults pointer and the annotations pointer (each only when its
  name is present) followed by one cell parameter per closure variable in source order;
  its length is the number of present names plus the number of closure variables.
\<close>

theorem getFunctionCreationArgs_layout:
  "getFunctionCreationArgs X d k a cvs =
     (case d of None \<Rightarrow> [] | Some _ \<Rightarrow> [''PyObject *defaults''])
     @ (case k of None \<Rightarrow> [] | Some _ \<Rightarrow> [''PyObject *kw_defaults''])
     @ (case a of None \<Rightarrow> [] | Some _ \<Rightarrow> [''PyObject *annotations''])
     @ map (\<lambda>v. ''PyCellObject *'' @ getVariableCodeName X True v) cvs
   \<and> length (getFunctionCreationArgs X d k a cvs) =
       (case d of None \<Rightarrow> 0 | Some _ \<Rightarrow> 1) + (case k of None \<Rightarrow> 0 | Some _ \<Rightarrow> 1)
       + (case a of None \<Rightarrow> 0 | Some _ \<Rightarrow> 1) + length cvs"
  by (cases d; cases k; cases a) (simp_all add: getFunctionCreationArgs_def foldl_snoc_map)

section \<open>Absent slots of the constructor body\<close>


text \<open>
  The two constructor bodies of the concrete instance, with every name absent: the
  slots read \<open>NULL NULL const_dict_empty\<close> with and without captured context.
\<close>

lemma maker_absent_slots_rendered:
  "getFunctionMakerCode example_collaborators example_templates ''f'' ''f'' ''function_1_f''
      ''codeobj_f'' (getParameters example_body) [] None None None ConstNone False
      example_context =
     Inr ''MAKE function_1_f(  ) NULL NULL NULL const_dict_empty''
   \<and> getFunctionMakerCode example_collaborators example_templates ''f'' ''f'' ''function_1_f''
      ''codeobj_f'' (getParameters example_body) [example_shared] None None None ConstNone False
      example_context =
     Inr (''MAKE function_1_f( PyCellObject *closure_x )     PyCellObject **closure = ''
          @ ''(PyCellObject **)malloc( 1 * sizeof(PyCellObject *) );'' @ newline
          @ ''    closure[0] = closure_x;'' @ newline
          @ ''    Py_INCREF( closure[0] ); 1 NULL NULL NULL const_dict_empty'')"
  by (simp add: getFunctionMakerCode_def getFunctionMakerCode_template_def
      getFunctionMakerCode_values_def getFunctionCreationArgs_def context_copy_def
      example_collaborators_def example_templates_def example_constant_code_def
      example_shared_def truthy_def prepend_def newline_def digit_char_def enumerate_eq_zip)

section \<open>The qualified-name object\<close>



section \<open>The assertion on keyword defaults\<close>

lemma maker_not_assertion:
  "generateFunctionCreationCode_maker X T fb co d k a ctx \<noteq> Inl (AssertionError b)"
  by (auto simp: generateFunctionCreationCode_maker_def getFunctionMakerCode_def
      getFunctionMakerDecl_def Let_def split: sum.splits dest: py_format_error)

lemma handleKwDefaults_empty:
  "handleKwDefaults X (Some (ExpressionConstantRef (ConstDict []))) ctx =
     Inl (AssertionError KwDefaultsNotEmptyConstant)"
  by (simp add: handleKwDefaults_def split: prod.splits)

lemma handleKwDefaults_other:
  "kw \<noteq> Some (ExpressionConstantRef (ConstDict [])) \<Longrightarrow>
   handleKwDefaults X kw ctx \<noteq> Inl (AssertionError KwDefaultsNotEmptyConstant)"
  by (cases kw) (auto simp: handleKwDefaults_def split: prod.splits expression.splits)

lemma names_empty_kw:
  "generateFunctionCreationCode_names X fb defs (Some (ExpressionConstantRef (ConstDict [])))
      ann df ctx =
     Inl (AssertionError (if needsCreation fb then KwDefaultsNotEmptyConstant
                          else BodyNeedsCreation))"
  by (simp add: generateFunctionCreationCode_names_def handleKwDefaults_empty
      split: prod.splits)

lemma names_other_kw:
  assumes "kw \<noteq> Some (ExpressionConstantRef (ConstDict []))"
  shows "generateFunctionCreationCode_names X fb defs kw ann df ctx
     \<noteq> Inl (AssertionError KwDefaultsNotEmptyConstant)"
proof -
  have h: "\<And>c. handleKwDefaults X kw c \<noteq> Inl (AssertionError KwDefaultsNotEmptyConstant)"
    using assms by (rule handleKwDefaults_other)
  show ?thesis
    using h
    by (auto simp: generateFunctionCreationCode_names_def
        split: prod.splits sum.splits option.splits)
qed

text \<open>
  C9. When the keyword-defaults expression is a constant reference to the empty
  mapping, \<open>generateFunctionCreationCode\<close> ends in an assertion failure and produces no
  code: the failure is the assertion on the keyword defaults, unless the assertion on
  the function body, which stands first, fails already. When the keyword defaults are
  absent or anything but that constant, the assertion on the keyword defaults does not
  fail.
\<close>

theorem kw_defaults_assertion:
  "(kw = Some (ExpressionConstantRef (ConstDict [])) \<longrightarrow>
      generateFunctionCreationCode X T to_name fb co defs kw ann df ctx =
        Inl (AssertionError (if needsCreation fb then KwDefaultsNotEmptyConstant
                             else BodyNeedsCreation)))
   \<and> (kw \<noteq> Some (ExpressionConstantRef (ConstDict [])) \<longrightarrow>
      generateFunctionCreationCode X T to_name fb co defs kw ann df ctx \<noteq>
        Inl (AssertionError KwDefaultsNotEmptyConstant))"
proof (intro conjI impI)
  assume "kw = Some (ExpressionConstantRef (ConstDict []))"
  then show "generateFunctionCreationCode X T to_name fb co defs kw ann df ctx =
        Inl (AssertionError (if needsCreation fb then KwDefaultsNotEmptyConstant
                             else BodyNeedsCreation))"
    by (simp add: generateFunctionCreationCode_def names_empty_kw)
next
  assume "kw \<noteq> Some (ExpressionConstantRef (ConstDict []))"
  from names_other_kw[OF this]
  show "generateFunctionCreationCode X T to_name fb co defs kw ann df ctx \<noteq>
        Inl (AssertionError KwDefaultsNotEmptyConstant)"
    by (auto simp: generateFunctionCreationCode_def maker_not_assertion
        split: sum.splits prod.splits)
qed

theorem kw_defaults_assertion_witness:
  "generateFunctionCreationCode example_collaborators example_templates ''tmp_f'' example_body
      example_code_object [] (Some (ExpressionConstantRef (ConstDict []))) None True
      example_context = Inl (AssertionError KwDefaultsNotEmptyConstant)
   \<and> generateFunctionCreationCode example_collaborators example_templates ''tmp_f'' example_body
      example_code_object [] (Some (ExpressionComputed 2)) None True example_context \<noteq>
        Inl (AssertionError KwDefaultsNotEmptyConstant)"
  using kw_defaults_assertion[of "Some (ExpressionConstantRef (ConstDict []))"
          example_collaborators example_templates "''tmp_f''" example_body example_code_object
          "[]" None True example_context]
        kw_defaults_assertion[of "Some (ExpressionComputed 2)"
          example_collaborators example_templates "''tmp_f''" example_body example_code_object
          "[]" None True example_context]
  by (simp add: example_body_def)

section \<open>Ownership at function creation\<close>

lemma maker_keeps_cleanup:
  "generateFunctionCreationCode_maker X T fb co d k a ctx1 = Inr ctx \<Longrightarrow>
   cleanup_names ctx = cleanup_names ctx1"
  by (auto simp: generateFunctionCreationCode_maker_def Let_def addHelperCode_def
      addDeclaration_def split: if_splits sum.splits)

text \<open>
  C3. Let the three names have been prepared and the constructor registered, so that the
  context stands before the constructor call, and let the annotations name differ from
  the other two names and from the result name. Then \<open>generateFunctionCreationCode\<close>
  emits, after the code that prepared the names, the constructor call and nothing else
  but the release of the annotations name, the latter exactly when that name is a
  cleanup obligation. In the ledger the names of the defaults, the keyword defaults and
  the annotations are gone, the result name is entered, and every other entry is kept.
\<close>

theorem creation_ownership:
  assumes names: "generateFunctionCreationCode_names X fb defs kw ann df ctx0 =
                    Inr (d, k, a, pre, ctx1)"
    and maker: "generateFunctionCreationCode_maker X T fb co d k a ctx1 = Inr ctx"
    and apart: "a \<noteq> None \<longrightarrow> a \<noteq> d \<and> a \<noteq> k \<and> a \<noteq> Some to_name"
  shows "\<exists>args ctx'.
           generateFunctionCreationCode X T to_name fb co defs kw ann df ctx0 =
             Inr (pre
                  @ [to_name @ '' = MAKE_FUNCTION_'' @ function_body.getCodeName fb @ ''( ''
                       @ args @ '' );'']
                  @ (case a of
                       None \<Rightarrow> []
                     | Some n \<Rightarrow> if needsCleanup n ctx1 then [''Py_DECREF( '' @ n @ '' );'']
                                 else []),
                  ctx')
           \<and> set (cleanup_names ctx') =
               (set (cleanup_names ctx1) - set_option d - set_option k - set_option a)
               \<union> {to_name}"
proof -
  obtain args where c:
    "getFunctionCreationCode X to_name (function_body.getCodeName fb) d k a
       (getClosureVariables fb) ctx =
     ([to_name @ '' = MAKE_FUNCTION_'' @ function_body.getCodeName fb @ ''( '' @ args @ '' );''],
      addCleanupTempName to_name
        ((case k of None \<Rightarrow> id | Some n \<Rightarrow> removeCleanupTempName n)
          ((case d of None \<Rightarrow> id | Some n \<Rightarrow> removeCleanupTempName n) ctx)))"
    using creation_code_result by blast
  define c1 where "c1 = addCleanupTempName to_name
        ((case k of None \<Rightarrow> id | Some n \<Rightarrow> removeCleanupTempName n)
          ((case d of None \<Rightarrow> id | Some n \<Rightarrow> removeCleanupTempName n) ctx))"
  have l: "cleanup_names ctx = cleanup_names ctx1"
    using maker by (rule maker_keeps_cleanup)
  have r: "generateFunctionCreationCode X T to_name fb co defs kw ann df ctx0 =
     Inr (pre @ [to_name @ '' = MAKE_FUNCTION_'' @ function_body.getCodeName fb @ ''( ''
                   @ args @ '' );''] @ fst (getReleaseCode a c1), snd (getReleaseCode a c1))"
    by (simp add: generateFunctionCreationCode_def names maker c c1_def split: prod.splits)
  have s1: "set (cleanup_names c1) =
      (set (cleanup_names ctx1) - set_option d - set_option k) \<union> {to_name}"
    by (cases d; cases k) (auto simp: c1_def l)
  have rel: "fst (getReleaseCode a c1) =
      (case a of None \<Rightarrow> []
       | Some n \<Rightarrow> if needsCleanup n ctx1 then [''Py_DECREF( '' @ n @ '' );''] else [])"
    using apart s1 by (cases a) (auto simp: getReleaseCode_def needsCleanup_def)
  have s2: "set (cleanup_names (snd (getReleaseCode a c1))) =
      (set (cleanup_names ctx1) - set_option d - set_option k - set_option a) \<union> {to_name}"
    using apart s1 by (cases a) (auto simp: getReleaseCode_def needsCleanup_def)
  show ?thesis
    unfolding r rel using s2 by blast
qed


theorem creation_ownership_witness:
  "\<exists>args ctx'.
     generateFunctionCreationCode example_collaborators example_templates ''tmp_f'' example_body
       example_code_object [ExpressionComputed 1] (Some (ExpressionComputed 2))
       (Some (ExpressionComputed 3)) True example_context =
       Inr ([''tmp_defaults = TUPLE;'', ''tmp_kw_defaults = EXPR;'', ''tmp_annotations = EXPR;'',
             ''tmp_f = MAKE_FUNCTION_function_1_f( '' @ args @ '' );'',
             ''Py_DECREF( tmp_annotations );''], ctx')
     \<and> set (cleanup_names ctx') = {''tmp_other'', ''tmp_f''}"
proof -
  define ctx1 where "ctx1 = example_context
    \<lparr>cleanup_names := [''tmp_other'', ''tmp_defaults'', ''tmp_kw_defaults'', ''tmp_annotations'']\<rparr>"
  have names: "generateFunctionCreationCode_names example_collaborators example_body
       [ExpressionComputed 1] (Some (ExpressionComputed 2)) (Some (ExpressionComputed 3)) True
       example_context =
     Inr (Some ''tmp_defaults'', Some ''tmp_kw_defaults'', Some ''tmp_annotations'',
          [''tmp_defaults = TUPLE;'', ''tmp_kw_defaults = EXPR;'', ''tmp_annotations = EXPR;''],
          ctx1)"
    by (simp add: generateFunctionCreationCode_names_def handleDefaults_def handleKwDefaults_def
        example_collaborators_def example_body_def example_context_def ctx1_def
        addCleanupTempName_def)
  have "\<exists>ctx. generateFunctionCreationCode_maker example_collaborators example_templates
       example_body example_code_object (Some ''tmp_defaults'') (Some ''tmp_kw_defaults'')
       (Some ''tmp_annotations'') ctx1 = Inr ctx"
    by (simp add: generateFunctionCreationCode_maker_def getFunctionMakerCode_def
        getFunctionMakerDecl_def getFunctionMakerCode_template_def
        getFunctionMakerCode_values_def getFunctionCreationArgs_def context_copy_def
        hasHelperCode_def example_collaborators_def example_templates_def example_body_def
        example_context_def example_shared_def example_constant_code_def ctx1_def truthy_def
        prepend_def enumerate_eq_zip Let_def)
  then obtain ctx where maker: "generateFunctionCreationCode_maker example_collaborators
       example_templates example_body example_code_object (Some ''tmp_defaults'')
       (Some ''tmp_kw_defaults'') (Some ''tmp_annotations'') ctx1 = Inr ctx" ..
  have apart: "Some ''tmp_annotations'' \<noteq> None \<longrightarrow>
      Some ''tmp_annotations'' \<noteq> Some ''tmp_defaults''
      \<and> Some ''tmp_annotations'' \<noteq> Some ''tmp_kw_defaults''
      \<and> Some ''tmp_annotations'' \<noteq> Some ''tmp_f''"
    by simp
  from creation_ownership[OF names maker apart]
  show ?thesis
    by (auto simp: ctx1_def needsCleanup_def example_body_def)
qed

section \<open>Ownership at a direct call\<close>

lemma incref_inj [simp]:
  "(''Py_INCREF( '' @ a @ '' );'' = ''Py_INCREF( '' @ b @ '' );'') = (a = b)"
  by simp

lemma references_ledger:
  "cleanup_names (snd (getDirectFunctionCallCode_references args ctx)) =
     filter (\<lambda>n. n \<notin> set args) (cleanup_names ctx)"
proof (induction args arbitrary: ctx)
  case Nil
  show ?case by simp
next
  case (Cons a args)
  show ?case
  proof (cases "needsCleanup a ctx")
    case True
    have "filter (\<lambda>x. a \<noteq> x \<and> x \<notin> set args) (cleanup_names ctx) =
          filter (\<lambda>n. n \<noteq> a \<and> n \<notin> set args) (cleanup_names ctx)"
      by (intro filter_cong) auto
    with True show ?thesis
      by (simp add: Cons.IH removeAll_filter_not_eq)
  next
    case False
    then have "filter (\<lambda>n. n \<noteq> a \<and> n \<notin> set args) (cleanup_names ctx) =
               filter (\<lambda>n. n \<notin> set args) (cleanup_names ctx)"
      by (intro filter_cong) (auto simp: needsCleanup_def)
    with False Cons.IH[of ctx] show ?thesis
      by (auto split: prod.splits)
  qed
qed

lemma references_count:
  "count_list (fst (getDirectFunctionCallCode_references args ctx)) (''Py_INCREF( '' @ a @ '' );'')
     + (if a \<in> set args \<and> needsCleanup a ctx then 1 else 0) = count_list args a"
proof (induction args arbitrary: ctx)
  case Nil
  show ?case by simp
next
  case (Cons b args)
  show ?case
  proof (cases "needsCleanup b ctx")
    case True
    have n: "needsCleanup a (removeCleanupTempName b ctx) = (a \<noteq> b \<and> needsCleanup a ctx)"
      by (auto simp: needsCleanup_def)
    from True Cons.IH[of "removeCleanupTempName b ctx"] show ?thesis
      by (auto simp: n)
  next
    case False
    with Cons.IH[of ctx] show ?thesis
      by (auto split: prod.splits)
  qed
qed

lemma owned_noop:
  "\<forall>a \<in> set args. \<not> needsCleanup a ctx \<Longrightarrow> getDirectFunctionCallCode_owned args ctx = ctx"
  by (induction args arbitrary: ctx) simp_all


lemma distinct_count: "distinct xs \<Longrightarrow> x \<in> set xs \<Longrightarrow> count_list xs x = 1"
  by (induction xs) auto

lemma references_lines:
  "set (fst (getDirectFunctionCallCode_references args ctx))
     \<subseteq> (\<lambda>a. ''Py_INCREF( '' @ a @ '' );'') ` set args"
proof (induction args arbitrary: ctx)
  case Nil
  show ?case by simp
next
  case (Cons b args)
  show ?case
    using Cons.IH[of ctx] Cons.IH[of "removeCleanupTempName b ctx"]
    by (auto split: prod.splits)
qed

lemma references_clear:
  "a \<in> set args \<Longrightarrow> \<not> needsCleanup a (snd (getDirectFunctionCallCode_references args ctx))"
  by (simp add: needsCleanup_def references_ledger)

text \<open>
  C4. \<open>getDirectFunctionCallCode\<close> emits the reference increments, then the call, then
  the error exit. When the call is emitted, no argument name is left in the cleanup
  ledger and every other entry is still there. The increments are \<open>Py_INCREF\<close> lines
  of argument names only, and for every name the number of increments emitted for it,
  plus one if it was a cleanup obligation at entry, equals the number of times it is
  passed: the callee receives one reference per argument. For distinct argument names
  this reads: no increment for a name that was an obligation, exactly one for any other.
\<close>

theorem direct_call_ownership:
  "getDirectFunctionCallCode X to_name ident arg_names cvs needs_check ctx =
     (fst (getDirectFunctionCallCode_references arg_names ctx)
      @ [to_name @ '' = '' @ getDirectFunctionEntryPointIdentifier X ident @ ''( ''
           @ join '', '' (arg_names @ getClosureVariableProvisionCode X ctx cvs) @ '' );'']
      @ fst (getErrorExitCode X to_name needs_check
               (snd (getDirectFunctionCallCode_references arg_names ctx))),
      addCleanupTempName to_name
        (snd (getErrorExitCode X to_name needs_check
                (snd (getDirectFunctionCallCode_references arg_names ctx)))))
   \<and> cleanup_names (snd (getDirectFunctionCallCode_references arg_names ctx)) =
       filter (\<lambda>n. n \<notin> set arg_names) (cleanup_names ctx)
   \<and> set (fst (getDirectFunctionCallCode_references arg_names ctx))
       \<subseteq> (\<lambda>a. ''Py_INCREF( '' @ a @ '' );'') ` set arg_names
   \<and> (\<forall>a. count_list (fst (getDirectFunctionCallCode_references arg_names ctx))
               (''Py_INCREF( '' @ a @ '' );'')
             + (if a \<in> set arg_names \<and> needsCleanup a ctx then 1 else 0)
           = count_list arg_names a)
   \<and> (distinct arg_names \<longrightarrow>
        (\<forall>a \<in> set arg_names.
           count_list (fst (getDirectFunctionCallCode_references arg_names ctx))
             (''Py_INCREF( '' @ a @ '' );'')
           = (if needsCleanup a ctx then 0 else 1)))"
proof (intro conjI allI impI ballI)
  have "getDirectFunctionCallCode_owned arg_names
          (snd (getDirectFunctionCallCode_references arg_names ctx)) =
        snd (getDirectFunctionCallCode_references arg_names ctx)"
    by (rule owned_noop) (simp add: references_clear)
  then show "getDirectFunctionCallCode X to_name ident arg_names cvs needs_check ctx =
     (fst (getDirectFunctionCallCode_references arg_names ctx)
      @ [to_name @ '' = '' @ getDirectFunctionEntryPointIdentifier X ident @ ''( ''
           @ join '', '' (arg_names @ getClosureVariableProvisionCode X ctx cvs) @ '' );'']
      @ fst (getErrorExitCode X to_name needs_check
               (snd (getDirectFunctionCallCode_references arg_names ctx))),
      addCleanupTempName to_name
        (snd (getErrorExitCode X to_name needs_check
                (snd (getDirectFunctionCallCode_references arg_names ctx)))))"
    by (simp add: getDirectFunctionCallCode_def Let_def case_prod_beta)
next
  show "cleanup_names (snd (getDirectFunctionCallCode_references arg_names ctx)) =
       filter (\<lambda>n. n \<notin> set arg_names) (cleanup_names ctx)"
    by (rule references_ledger)
next
  show "set (fst (getDirectFunctionCallCode_references arg_names ctx))
       \<subseteq> (\<lambda>a. ''Py_INCREF( '' @ a @ '' );'') ` set arg_names"
    by (rule references_lines)
next
  fix a
  show "count_list (fst (getDirectFunctionCallCode_references arg_names ctx))
               (''Py_INCREF( '' @ a @ '' );'')
             + (if a \<in> set arg_names \<and> needsCleanup a ctx then 1 else 0)
           = count_list arg_names a"
    by (rule references_count)
next
  fix a
  assume d: "distinct arg_names" and a: "a \<in> set arg_names"
  then have "count_list arg_names a = 1"
    by (simp add: distinct_count)
  with references_count[of arg_names ctx a] a
  show "count_list (fst (getDirectFunctionCallCode_references arg_names ctx))
             (''Py_INCREF( '' @ a @ '' );'')
           = (if needsCleanup a ctx then 0 else 1)"
    by (simp split: if_splits)
qed

theorem direct_call_ownership_witness:
  "getDirectFunctionCallCode example_collaborators ''tmp_r'' ''function_1_f''
      [''tmp_other'', ''tmp_b''] [] True example_context =
     ([''Py_INCREF( tmp_b );'', ''tmp_r = impl_function_1_f( tmp_other, tmp_b );'',
       ''if ( tmp_r == NULL ) goto frame_exception_exit_1;''],
      example_context\<lparr>cleanup_names := [''tmp_r'']\<rparr>)
   \<and> count_list (fst (getDirectFunctionCallCode_references [''tmp_other'', ''tmp_b'']
                        example_context)) ''Py_INCREF( tmp_other );'' = 0
   \<and> count_list (fst (getDirectFunctionCallCode_references [''tmp_other'', ''tmp_b'']
                        example_context)) ''Py_INCREF( tmp_b );'' = 1"
  using direct_call_ownership[of example_collaborators "''tmp_r''" "''function_1_f''"
          "[''tmp_other'', ''tmp_b'']" "[]" True example_context]
  by (simp add: example_context_def example_collaborators_def needsCleanup_def
      removeCleanupTempName_def addCleanupTempName_def getClosureVariableProvisionCode_def)

section \<open>The exit of a resumable body\<close>





section \<open>The exit section of a plain function\<close>




section \<open>The parameter array of a generator object\<close>



section \<open>Single emission of the constructor\<close>

lemma keeps_identity_refl [simp]: "keeps_identity key c c"
  by (simp add: keeps_identity_def)





















end
